theory Spec2Isabelle
  imports Main
begin

unbundle bit_operations_syntax

section \<open>Python values\<close>

text \<open>
  The constructor of \<open>LayerVersion\<close> inspects the run-time type of its argument
  (\<open>isinstance(arn, six.string_types)\<close>) and the truth value of \<open>codeuri\<close>, so both
  arguments are values of a small universe of Python values: \<open>None\<close>, booleans, integers,
  strings, lists and dictionaries with string keys (what a parsed template holds; an
  unresolved intrinsic is such a dictionary). A dictionary is the list of its items.

  A Python string is the list of its code points, numbers below 1114112; the
  surrogates 55296..57343 are code points like the others. \<open>lit\<close> turns a literal of
  the theory into such a string. The functions below are defined on every list of
  numbers; nothing a string cannot hold is ever passed to them.
\<close>

type_synonym pystr = "nat list"

definition lit :: "string \<Rightarrow> pystr" where
  "lit s = map of_char s"

abbreviation colon :: nat where
  "colon \<equiv> 58"

datatype pyval =
    PyNone
  | PyBool bool
  | PyInt int
  | PyStr pystr
  | PyList "pyval list"
  | PyDict "(pystr \<times> pyval) list"

text \<open>The exceptions the module raises, or lets escape from a built-in.\<close>

datatype pyerr =
    UnsupportedIntrinsic pyval
      \<comment> \<open>message: the \<open>str()\<close> of the carried value, then \<open>" is an Unsupported Intrinsic"\<close>\<close>
  | InvalidLayerVersionArn pystr
      \<comment> \<open>carries the message\<close>
  | ValueError
  | TypeError
  | UnicodeEncodeError

text \<open>\<open>bool(v)\<close>: the truth value of a Python value.\<close>

fun py_bool :: "pyval \<Rightarrow> bool" where
  "py_bool PyNone = False"
| "py_bool (PyBool b) = b"
| "py_bool (PyInt i) = (i \<noteq> 0)"
| "py_bool (PyStr s) = (s \<noteq> [])"
| "py_bool (PyList xs) = (xs \<noteq> [])"
| "py_bool (PyDict kvs) = (kvs \<noteq> [])"

text \<open>\<open>isinstance(v, six.string_types)\<close>.\<close>

fun is_string :: "pyval \<Rightarrow> bool" where
  "is_string (PyStr s) = True"
| "is_string v = False"

text \<open>
  \<open>a == b\<close> on Python values. \<open>bool\<close> is a subclass of \<open>int\<close> (\<open>True == 1\<close>);
  lists compare elementwise; dictionaries compare as mappings, whatever the order of
  their items.
\<close>

function (sequential) py_eq :: "pyval \<Rightarrow> pyval \<Rightarrow> bool" where
  "py_eq PyNone PyNone = True"
| "py_eq (PyBool a) (PyBool b) = (a = b)"
| "py_eq (PyBool a) (PyInt j) = ((if a then 1 else 0) = j)"
| "py_eq (PyInt i) (PyBool b) = (i = (if b then 1 else 0))"
| "py_eq (PyInt i) (PyInt j) = (i = j)"
| "py_eq (PyStr s) (PyStr t) = (s = t)"
| "py_eq (PyList xs) (PyList ys) = list_all2 py_eq xs ys"
| "py_eq (PyDict xs) (PyDict ys) =
     (set (map fst xs) = set (map fst ys) \<and>
      (\<forall>k \<in> set (map fst xs).
         case map_of xs k of
           None \<Rightarrow> False
         | Some v \<Rightarrow> (case map_of ys k of None \<Rightarrow> False | Some w \<Rightarrow> py_eq v w)))"
| "py_eq v w = False"
  by pat_completeness auto

lemma size_map_of:
  "map_of xs k = Some v \<Longrightarrow> size v < Suc (size_list (size_prod (\<lambda>_. 0) size) xs)"
  by (induction xs) (auto split: if_splits)

termination py_eq
proof (relation "measure (\<lambda>(a, b). size a)", goal_cases)
  case 1
  show ?case by simp
next
  case (2 xs ys x y)
  then show ?case by (simp add: less_Suc_eq_le size_list_estimation')
next
  case (3 xs ys k v w)
  then show ?case by (simp add: size_map_of)
qed

section \<open>String built-ins\<close>

text \<open>
  \<open>s.split(c, n)\<close> for a separator of one code point: at most \<open>n\<close> splits, from the
  left.
\<close>

fun split_chr :: "nat \<Rightarrow> nat \<Rightarrow> pystr \<Rightarrow> pystr list" where
  "split_chr c 0 s = [s]"
| "split_chr c (Suc n) s =
     (case dropWhile (\<lambda>x. x \<noteq> c) s of
        [] \<Rightarrow> [s]
      | _ # rest \<Rightarrow> takeWhile (\<lambda>x. x \<noteq> c) s # split_chr c n rest)"

text \<open>
  \<open>s.rsplit(c, n)\<close>: at most \<open>n\<close> splits, from the right. The module only splits at
  \<open>':'\<close>.
\<close>

definition rsplit :: "pystr \<Rightarrow> nat \<Rightarrow> nat \<Rightarrow> pystr list" where
  "rsplit s c n = rev (map rev (split_chr c n (rev s)))"

text \<open>\<open>sep.join(xs)\<close>.\<close>

fun join :: "pystr \<Rightarrow> pystr list \<Rightarrow> pystr" where
  "join sep [] = []"
| "join sep [x] = x"
| "join sep (x # y # ys) = x @ sep @ join sep (y # ys)"

text \<open>
  \<open>int(s)\<close> on a string, base 10, as CPython converts it: surrounding whitespace is
  dropped, one sign is allowed, then come decimal digits, single underscores allowed
  between two digits. \<open>None\<close> stands for the \<open>ValueError\<close> of a string that is no
  integer literal, a string of more than \<open>int_max_str_digits\<close> digits included (the
  default of the interpreter's limit).

  The decimal digits are those of the interpreter's Unicode database (version 14.0):
  66 runs of ten code points, each in the order 0 to 9; \<open>decimal_runs\<close> lists where
  the runs start. Whitespace is the six ASCII characters of C's \<open>isspace\<close> and the
  Unicode spaces from 128 on.
\<close>

definition decimal_runs :: "nat list" where
  "decimal_runs =
   [48, 1632, 1776, 1984, 2406, 2534, 2662, 2790, 2918, 3046, 3174, 3302, 3430, 3558,
    3664, 3792, 3872, 4160, 4240, 6112, 6160, 6470, 6608, 6784, 6800, 6992, 7088, 7232,
    7248, 42528, 43216, 43264, 43472, 43504, 43600, 44016, 65296, 66720, 68912, 69734,
    69872, 69942, 70096, 70384, 70736, 70864, 71248, 71360, 71472, 71904, 72016, 72784,
    73040, 73120, 92768, 92864, 93008, 120782, 120792, 120802, 120812, 120822, 123200,
    123632, 125264, 130032]"

definition decimal_of :: "nat \<Rightarrow> nat option" where
  "decimal_of c =
     (case filter (\<lambda>s. s \<le> c \<and> c < s + 10) decimal_runs of
        [] \<Rightarrow> None
      | s # ss \<Rightarrow> Some (c - s))"

definition is_space :: "nat \<Rightarrow> bool" where
  "is_space c =
     (c \<in> {9, 10, 11, 12, 13, 32, 133, 160, 5760, 8232, 8233, 8239, 8287, 12288}
      \<or> (8192 \<le> c \<and> c \<le> 8202))"

definition is_digit :: "nat \<Rightarrow> bool" where
  "is_digit c = (decimal_of c \<noteq> None)"

definition digit_val :: "nat \<Rightarrow> int" where
  "digit_val c = (case decimal_of c of None \<Rightarrow> 0 | Some d \<Rightarrow> int d)"

definition strip :: "pystr \<Rightarrow> pystr" where
  "strip s = rev (dropWhile is_space (rev (dropWhile is_space s)))"

fun int_digits :: "int \<Rightarrow> pystr \<Rightarrow> int option" where
  "int_digits acc [] = Some acc"
| "int_digits acc (c # cs) =
     (if is_digit c then int_digits (10 * acc + digit_val c) cs
      else if c = 95 then
        (case cs of
           [] \<Rightarrow> None
         | d # ds \<Rightarrow> if is_digit d then int_digits (10 * acc + digit_val d) ds else None)
      else None)"

definition int_max_str_digits :: nat where
  "int_max_str_digits = 4300"

definition parse_decimal :: "pystr \<Rightarrow> int option" where
  "parse_decimal s =
     (case s of
        [] \<Rightarrow> None
      | c # cs \<Rightarrow>
          if is_digit c \<and> length (filter is_digit s) \<le> int_max_str_digits
          then int_digits (digit_val c) cs else None)"

definition py_int :: "pystr \<Rightarrow> int option" where
  "py_int s =
     (case strip s of
        [] \<Rightarrow> None
      | c # cs \<Rightarrow>
          if c = 45 then map_option uminus (parse_decimal cs)
          else if c = 43 then parse_decimal cs
          else parse_decimal (c # cs))"

text \<open>
  \<open>s.encode('utf-8')\<close>: one to four bytes for each code point (bytes are numbers below
  256), and \<open>UnicodeEncodeError\<close> at the first surrogate.
\<close>

definition surrogate :: "nat \<Rightarrow> bool" where
  "surrogate c = (55296 \<le> c \<and> c \<le> 57343)"

definition utf8_char :: "nat \<Rightarrow> nat list" where
  "utf8_char c =
     (if c < 128 then [c]
      else if c < 2048 then [192 + c div 64, 128 + c mod 64]
      else if c < 65536 then [224 + c div 4096, 128 + c div 64 mod 64, 128 + c mod 64]
      else [240 + c div 262144, 128 + c div 4096 mod 64, 128 + c div 64 mod 64,
            128 + c mod 64])"

fun utf8_encode :: "pystr \<Rightarrow> pyerr + nat list" where
  "utf8_encode [] = Inr []"
| "utf8_encode (c # cs) =
     (if surrogate c then Inl UnicodeEncodeError
      else case utf8_encode cs of
        Inl e \<Rightarrow> Inl e
      | Inr bs \<Rightarrow> Inr (utf8_char c @ bs))"

section \<open>hashlib.sha256\<close>

text \<open>
  SHA-256 on a list of bytes. A 32-bit word is a natural number below \<open>2\<^sup>3\<^sup>2\<close>, with the
  wrap-around of the addition written out. The message schedule is a window of the
  last 16 words, which moves by one word each round.
\<close>

type_synonym word32 = nat

definition add32 :: "word32 \<Rightarrow> word32 \<Rightarrow> word32" where
  "add32 x y = (x + y) mod 4294967296"

definition not32 :: "word32 \<Rightarrow> word32" where
  "not32 x = 4294967295 - x"

definition shr :: "nat \<Rightarrow> word32 \<Rightarrow> word32" where
  "shr n x = x div 2 ^ n"

definition rotr :: "nat \<Rightarrow> word32 \<Rightarrow> word32" where
  "rotr n x = x div 2 ^ n + (x mod 2 ^ n) * 2 ^ (32 - n)"

definition Ch :: "word32 \<Rightarrow> word32 \<Rightarrow> word32 \<Rightarrow> word32" where
  "Ch x y z = (x AND y) XOR (not32 x AND z)"

definition Maj :: "word32 \<Rightarrow> word32 \<Rightarrow> word32 \<Rightarrow> word32" where
  "Maj x y z = (x AND y) XOR (x AND z) XOR (y AND z)"

definition bsig0 :: "word32 \<Rightarrow> word32" where
  "bsig0 x = rotr 2 x XOR rotr 13 x XOR rotr 22 x"

definition bsig1 :: "word32 \<Rightarrow> word32" where
  "bsig1 x = rotr 6 x XOR rotr 11 x XOR rotr 25 x"

definition ssig0 :: "word32 \<Rightarrow> word32" where
  "ssig0 x = rotr 7 x XOR rotr 18 x XOR shr 3 x"

definition ssig1 :: "word32 \<Rightarrow> word32" where
  "ssig1 x = rotr 17 x XOR rotr 19 x XOR shr 10 x"

definition K256 :: "word32 list" where
  "K256 =
   [1116352408, 1899447441, 3049323471, 3921009573, 961987163, 1508970993,
    2453635748, 2870763221, 3624381080, 310598401, 607225278, 1426881987,
    1925078388, 2162078206, 2614888103, 3248222580, 3835390401, 4022224774,
    264347078, 604807628, 770255983, 1249150122, 1555081692, 1996064986,
    2554220882, 2821834349, 2952996808, 3210313671, 3336571891, 3584528711,
    113926993, 338241895, 666307205, 773529912, 1294757372, 1396182291,
    1695183700, 1986661051, 2177026350, 2456956037, 2730485921, 2820302411,
    3259730800, 3345764771, 3516065817, 3600352804, 4094571909, 275423344,
    430227734, 506948616, 659060556, 883997877, 958139571, 1322822218,
    1537002063, 1747873779, 1955562222, 2024104815, 2227730452, 2361852424,
    2428436474, 2756734187, 3204031479, 3329325298]"

type_synonym hstate =
  "word32 \<times> word32 \<times> word32 \<times> word32 \<times> word32 \<times> word32 \<times> word32 \<times> word32"

definition H256 :: hstate where
  "H256 = (1779033703, 3144134277, 1013904242, 2773480762,
           1359893119, 2600822924, 528734635, 1541459225)"

fun round256 :: "hstate \<Rightarrow> word32 \<times> word32 \<Rightarrow> hstate" where
  "round256 (a, b, c, d, e, f, g, h) (k, w) =
     (let t1 = add32 (add32 (add32 (add32 h (bsig1 e)) (Ch e f g)) k) w;
          t2 = add32 (bsig0 a) (Maj a b c)
      in (add32 t1 t2, a, b, c, add32 d t1, e, f, g))"

definition next_w :: "word32 list \<Rightarrow> word32" where
  "next_w w = add32 (add32 (add32 (ssig1 (w ! 14)) (w ! 9)) (ssig0 (w ! 1))) (w ! 0)"

fun rounds :: "word32 list \<Rightarrow> word32 list \<Rightarrow> hstate \<Rightarrow> hstate" where
  "rounds [] w s = s"
| "rounds (k # ks) w s = rounds ks (tl w @ [next_w w]) (round256 s (k, hd w))"

fun hadd :: "hstate \<Rightarrow> hstate \<Rightarrow> hstate" where
  "hadd (a, b, c, d, e, f, g, h) (a', b', c', d', e', f', g', h') =
     (add32 a a', add32 b b', add32 c c', add32 d d',
      add32 e e', add32 f f', add32 g g', add32 h h')"

definition compress :: "hstate \<Rightarrow> word32 list \<Rightarrow> hstate" where
  "compress s block = hadd s (rounds K256 block s)"

text \<open>
  Padding: the byte 128, zero bytes up to 56 modulo 64, and the length in bits as
  eight bytes, the most significant first.
\<close>

definition pad :: "nat list \<Rightarrow> nat list" where
  "pad m =
     (let n = length m
      in m @ [128] @ replicate ((119 - n mod 64) mod 64) 0
           @ map (\<lambda>k. (8 * n) div k mod 256)
               [72057594037927936, 281474976710656, 1099511627776, 4294967296,
                16777216, 65536, 256, 1])"

fun be32 :: "nat list \<Rightarrow> word32 list" where
  "be32 (a # b # c # d # rest) = (16777216 * a + 65536 * b + 256 * c + d) # be32 rest"
| "be32 bs = []"

function blocks :: "hstate \<Rightarrow> word32 list \<Rightarrow> hstate" where
  "blocks s ws = (if length ws < 16 then s else blocks (compress s (take 16 ws)) (drop 16 ws))"
  by pat_completeness auto
termination
  by (relation "measure (\<lambda>(s, ws). length ws)") auto

definition sha256 :: "nat list \<Rightarrow> hstate" where
  "sha256 m = blocks H256 (be32 (pad m))"

text \<open>\<open>hexdigest()\<close>: eight lowercase hexadecimal digits for each word of the state.\<close>

definition hexchar :: "nat \<Rightarrow> nat" where
  "hexchar n = lit ''0123456789abcdef'' ! n"

definition hex32 :: "word32 \<Rightarrow> pystr" where
  "hex32 w =
     map (\<lambda>k. hexchar (w div k mod 16)) [268435456, 16777216, 1048576, 65536, 4096, 256, 16, 1]"

fun hexdigest :: "hstate \<Rightarrow> pystr" where
  "hexdigest (a, b, c, d, e, f, g, h) =
     hex32 a @ hex32 b @ hex32 c @ hex32 d @ hex32 e @ hex32 f @ hex32 g @ hex32 h"

definition sha256_hexdigest :: "nat list \<Rightarrow> pystr" where
  "sha256_hexdigest m = hexdigest (sha256 m)"

section \<open>LayerVersion\<close>

text \<open>
  The instance dictionary of a \<open>LayerVersion\<close>: \<open>_arn\<close>, \<open>_codeuri\<close>,
  \<open>is_defined_within_template\<close>, \<open>_name\<close>, \<open>_version\<close>. After the constructor's type
  check \<open>_arn\<close> and \<open>_name\<close> are strings and \<open>_version\<close> is an integer or \<open>None\<close>.
\<close>

record LayerVersion =
  lv_arn :: pystr
  lv_codeuri :: pyval
  is_defined_within_template :: bool
  lv_name :: pystr
  lv_version :: "int option"

definition LAYER_NAME_DELIMETER :: pystr where
  "LAYER_NAME_DELIMETER = lit ''-''"

definition invalid_arn :: "pystr \<Rightarrow> pyerr" where
  "invalid_arn arn = InvalidLayerVersionArn (arn @ lit '' is an Invalid Layer Arn.'')"

text \<open>
  \<open>_compute_layer_version\<close>. The \<open>try\<close> block unpacks \<open>arn.rsplit(':', 1)\<close> into two
  names and converts the second with \<open>int\<close>; the \<open>ValueError\<close> of either step becomes
  \<open>InvalidLayerVersionArn\<close>.
\<close>

definition compute_layer_version :: "bool \<Rightarrow> pystr \<Rightarrow> pyerr + int option" where
  "compute_layer_version is_defined arn =
     (if is_defined then Inr None
      else case rsplit arn colon 1 of
        [u, layer_version] \<Rightarrow>
          (case py_int layer_version of
             None \<Rightarrow> Inl (invalid_arn arn)
           | Some v \<Rightarrow> Inr (Some v))
      | parts \<Rightarrow> Inl (invalid_arn arn))"

text \<open>
  \<open>_compute_layer_name\<close>. The \<open>try\<close> block unpacks \<open>arn.rsplit(':', 2)\<close> into three
  names. The hash is taken after it, so the \<open>UnicodeEncodeError\<close> of \<open>arn.encode\<close>
  is not caught (though it is a \<open>ValueError\<close>) and leaves the function as it is.
\<close>

definition compute_layer_name :: "bool \<Rightarrow> pystr \<Rightarrow> pyerr + pystr" where
  "compute_layer_name is_defined arn =
     (if is_defined then Inr arn
      else case rsplit arn colon 2 of
        [u, layer_name, layer_version] \<Rightarrow>
          (case utf8_encode arn of
             Inl e \<Rightarrow> Inl e
           | Inr bytes \<Rightarrow>
               Inr (join LAYER_NAME_DELIMETER
                      [layer_name, layer_version, take 10 (sha256_hexdigest bytes)]))
      | parts \<Rightarrow> Inl (invalid_arn arn))"

text \<open>\<open>LayerVersion.__init__\<close>: the type check, then the name, then the version.\<close>

definition LayerVersion_init :: "pyval \<Rightarrow> pyval \<Rightarrow> pyerr + LayerVersion" where
  "LayerVersion_init arn codeuri =
     (case arn of
        PyStr a \<Rightarrow>
          (let is_defined = py_bool codeuri
           in case compute_layer_name is_defined a of
                Inl e \<Rightarrow> Inl e
              | Inr n \<Rightarrow>
                  (case compute_layer_version is_defined a of
                     Inl e \<Rightarrow> Inl e
                   | Inr v \<Rightarrow>
                       Inr \<lparr>lv_arn = a, lv_codeuri = codeuri,
                            is_defined_within_template = is_defined,
                            lv_name = n, lv_version = v\<rparr>))
      | v \<Rightarrow> Inl (UnsupportedIntrinsic arn))"

text \<open>
  The property \<open>layer_arn\<close>: \<open>arn.rsplit(':', 1)\<close> unpacked into two names; a list of
  another length is the \<open>ValueError\<close> of the unpacking, which nothing catches.
\<close>

definition layer_arn :: "LayerVersion \<Rightarrow> pyerr + pystr" where
  "layer_arn self =
     (case rsplit (lv_arn self) colon 1 of
        [la, u] \<Rightarrow> Inr la
      | parts \<Rightarrow> Inl ValueError)"

text \<open>The setter of \<open>codeuri\<close>.\<close>

definition set_codeuri :: "LayerVersion \<Rightarrow> pyval \<Rightarrow> LayerVersion" where
  "set_codeuri self codeuri = self\<lparr>lv_codeuri := codeuri\<rparr>"

text \<open>
  \<open>__eq__\<close>: the other object is a \<open>LayerVersion\<close> or it is not; two instance
  dictionaries are equal when they agree, by \<open>==\<close>, on each attribute.
\<close>

datatype pyobj = LayerVersionObj LayerVersion | OtherObj pyval

definition dict_eq :: "LayerVersion \<Rightarrow> LayerVersion \<Rightarrow> bool" where
  "dict_eq a b =
     (lv_arn a = lv_arn b \<and> py_eq (lv_codeuri a) (lv_codeuri b)
      \<and> is_defined_within_template a = is_defined_within_template b
      \<and> lv_name a = lv_name b \<and> lv_version a = lv_version b)"

fun LayerVersion_eq :: "LayerVersion \<Rightarrow> pyobj \<Rightarrow> bool" where
  "LayerVersion_eq self (LayerVersionObj other) = dict_eq self other"
| "LayerVersion_eq self (OtherObj v) = False"

section \<open>Cors\<close>

text \<open>
  The named tuple \<open>Cors\<close>: four fields, each \<open>None\<close> by default. The argument of
  \<open>cors_to_headers\<close> is \<open>None\<close> or such a tuple; a tuple of four fields is never
  falsy, so \<open>not cors\<close> holds for \<open>None\<close> only. A dictionary is the list of its items,
  in the order of the dictionary display; its keys, the four header names, are
  literals of the theory.
\<close>

record Cors =
  allow_origin :: pyval
  allow_methods :: pyval
  allow_headers :: pyval
  max_age :: pyval

definition Cors_new :: Cors where
  "Cors_new = \<lparr>allow_origin = PyNone, allow_methods = PyNone,
               allow_headers = PyNone, max_age = PyNone\<rparr>"

definition cors_to_headers :: "Cors option \<Rightarrow> (string \<times> pyval) list" where
  "cors_to_headers cors =
     (case cors of
        None \<Rightarrow> []
      | Some c \<Rightarrow>
          filter (\<lambda>(h_key, h_value). h_value \<noteq> PyNone)
            [(''Access-Control-Allow-Origin'', allow_origin c),
             (''Access-Control-Allow-Methods'', allow_methods c),
             (''Access-Control-Allow-Headers'', allow_headers c),
             (''Access-Control-Max-Age'', max_age c)])"

section \<open>Api\<close>

text \<open>
  The attributes of an \<open>Api\<close>. \<open>binary_media_types_set\<close> is a Python \<open>set\<close> of strings,
  here the list of its elements.
\<close>

record Api =
  routes :: pyval
  cors :: "Cors option"
  binary_media_types_set :: "pystr list"
  stage_name :: pyval
  stage_variables :: pyval

definition Api_init :: "pyval \<Rightarrow> Api" where
  "Api_init r =
     \<lparr>routes = (if r = PyNone then PyList [] else r), cors = None,
      binary_media_types_set = [], stage_name = PyNone, stage_variables = PyNone\<rparr>"

text \<open>
  The built-in \<open>hash\<close>. Lists, dictionaries and sets are unhashable: \<open>hash\<close> raises
  \<open>TypeError\<close> on them. The hash of another value is the interpreter's own: \<open>H\<close> gives
  it for \<open>None\<close>, booleans, integers and strings, and \<open>T\<close> combines the hashes of the
  items of a tuple.
\<close>

fun py_hash :: "(pyval \<Rightarrow> int) \<Rightarrow> pyval \<Rightarrow> pyerr + int" where
  "py_hash H (PyList xs) = Inl TypeError"
| "py_hash H (PyDict kvs) = Inl TypeError"
| "py_hash H v = Inr (H v)"

fun hash_items :: "(pyval \<Rightarrow> int) \<Rightarrow> pyval list \<Rightarrow> pyerr + int list" where
  "hash_items H [] = Inr []"
| "hash_items H (v # vs) =
     (case py_hash H v of
        Inl e \<Rightarrow> Inl e
      | Inr h \<Rightarrow> (case hash_items H vs of Inl e \<Rightarrow> Inl e | Inr hs \<Rightarrow> Inr (h # hs)))"

definition hash_cors :: "(pyval \<Rightarrow> int) \<Rightarrow> (int list \<Rightarrow> int) \<Rightarrow> Cors option \<Rightarrow> pyerr + int" where
  "hash_cors H T c =
     (case c of
        None \<Rightarrow> Inr (H PyNone)
      | Some t \<Rightarrow>
          (case hash_items H [allow_origin t, allow_methods t, allow_headers t, max_age t] of
             Inl e \<Rightarrow> Inl e
           | Inr hs \<Rightarrow> Inr (T hs)))"

definition hash_set :: "pystr list \<Rightarrow> pyerr + int" where
  "hash_set s = Inl TypeError"

text \<open>
  \<open>Api.__hash__\<close>: the three hashes are taken from left to right and multiplied.
\<close>

definition Api_hash :: "(pyval \<Rightarrow> int) \<Rightarrow> (int list \<Rightarrow> int) \<Rightarrow> Api \<Rightarrow> pyerr + int" where
  "Api_hash H T self =
     (case py_hash H (routes self) of
        Inl e \<Rightarrow> Inl e
      | Inr h1 \<Rightarrow>
          (case hash_cors H T (cors self) of
             Inl e \<Rightarrow> Inl e
           | Inr h2 \<Rightarrow>
               (case hash_set (binary_media_types_set self) of
                  Inl e \<Rightarrow> Inl e
                | Inr h3 \<Rightarrow> Inr (h1 * h2 * h3))))"

section \<open>Vocabulary of the specification\<close>

text \<open>
  The number of colon-delimited segments of a string, its final segment, the
  lowercase hexadecimal digits, and the strings that have a UTF-8 encoding: those
  without a surrogate.
\<close>

definition colon_segments :: "pystr \<Rightarrow> nat" where
  "colon_segments s = Suc (length (filter (\<lambda>c. c = colon) s))"

definition final_segment :: "pystr \<Rightarrow> pystr" where
  "final_segment s = rev (takeWhile (\<lambda>c. c \<noteq> colon) (rev s))"

definition lower_hex :: "nat set" where
  "lower_hex = set (lit ''0123456789abcdef'')"

definition encodable :: "pystr \<Rightarrow> bool" where
  "encodable s = (\<forall>c \<in> set s. \<not> surrogate c)"

section \<open>Facts about the string built-ins\<close>

text \<open>The built-ins on some inputs, as the interpreter answers them.\<close>

lemma decimal_of_numeral:
  "decimal_of (numeral k) =
     (case filter (\<lambda>s. s \<le> numeral k \<and> numeral k < s + 10) decimal_runs of
        [] \<Rightarrow> None
      | s # ss \<Rightarrow> Some (numeral k - s))"
  by (simp add: decimal_of_def)

lemma is_digit_numeral: "is_digit (numeral k) = (decimal_of (numeral k) \<noteq> None)"
  by (simp add: is_digit_def)

lemma digit_val_numeral:
  "digit_val (numeral k) = (case decimal_of (numeral k) of None \<Rightarrow> 0 | Some d \<Rightarrow> int d)"
  by (simp add: digit_val_def)

lemmas py_int_eval =
  py_int_def strip_def is_space_def parse_decimal_def is_digit_numeral digit_val_numeral
  decimal_of_numeral decimal_runs_def int_max_str_digits_def lit_def

lemma py_int_examples:
  "py_int (lit '' 5 '') = Some 5 \<and> py_int (lit ''+5'') = Some 5
   \<and> py_int (lit ''-5'') = Some (- 5)
   \<and> py_int (lit ''1_0'') = Some 10 \<and> py_int (lit ''007'') = Some 7
   \<and> py_int (lit ''1__0'') = None \<and> py_int (lit ''_1'') = None
   \<and> py_int (lit ''1_'') = None \<and> py_int [] = None
   \<and> py_int (lit ''+'') = None \<and> py_int (lit ''- 5'') = None
   \<and> py_int (lit ''4x'') = None"
  by (simp add: py_int_eval)

lemma py_int_unicode_examples:
  "py_int [1633, 1634] = Some 12 \<and> py_int [160, 53, 8195] = Some 5
   \<and> py_int [28, 53] = None \<and> py_int [55296] = None \<and> py_int [178] = None"
  by (simp add: py_int_eval)

lemma rsplit_examples:
  "rsplit (lit ''a:b:c:d'') colon 2 = [lit ''a:b'', lit ''c'', lit ''d'']
   \<and> rsplit (lit ''a:b'') colon 2 = [lit ''a'', lit ''b'']
   \<and> rsplit (lit ''a::'') colon 1 = [lit ''a:'', []]
   \<and> rsplit [] colon 1 = [[]]"
  by (simp add: rsplit_def numeral_2_eq_2 lit_def)

lemma utf8_encode_examples:
  "utf8_encode [97, 233, 8364, 128512] = Inr [97, 195, 169, 226, 130, 172, 240, 159, 152, 128]
   \<and> utf8_encode [97, 55296, 98] = Inl UnicodeEncodeError"
  by (simp add: surrogate_def utf8_char_def)

lemma dropWhile_absent: "c \<notin> set s \<Longrightarrow> dropWhile (\<lambda>x. x \<noteq> c) s = []"
  by (induction s) auto

lemma dropWhile_first: "c \<notin> set v \<Longrightarrow> dropWhile (\<lambda>x. x \<noteq> c) (v @ c # r) = c # r"
  by (induction v) auto

lemma takeWhile_first: "c \<notin> set v \<Longrightarrow> takeWhile (\<lambda>x. x \<noteq> c) (v @ c # r) = v"
  by (induction v) auto

lemma split_chr_absent: "c \<notin> set s \<Longrightarrow> split_chr c n s = [s]"
  by (cases n) (simp_all add: dropWhile_absent)

lemma split_chr_first:
  "c \<notin> set v \<Longrightarrow> split_chr c (Suc n) (v @ c # r) = v # split_chr c n r"
  by (simp add: dropWhile_first takeWhile_first)

lemma rsplit_zero: "rsplit s c 0 = [s]"
  by (simp add: rsplit_def)

lemma rsplit_absent: "c \<notin> set s \<Longrightarrow> rsplit s c n = [s]"
  by (simp add: rsplit_def split_chr_absent)

lemma rsplit_last:
  "c \<notin> set v \<Longrightarrow> rsplit (p @ c # v) c (Suc n) = rsplit p c n @ [v]"
  using split_chr_first [of c "rev v" n "rev p"] by (simp add: rsplit_def)

lemma int_digits_chars:
  "int_digits acc s = Some k \<Longrightarrow> \<forall>c \<in> set s. is_digit c \<or> c = 95"
  by (induction acc s rule: int_digits.induct) (auto split: if_splits list.splits)

lemma parse_decimal_chars:
  "parse_decimal s = Some k \<Longrightarrow> \<forall>c \<in> set s. is_digit c \<or> c = 95"
  by (auto simp: parse_decimal_def split: list.splits if_splits dest: int_digits_chars)

lemma strip_chars: "c \<in> set s \<Longrightarrow> is_space c \<or> c \<in> set (strip s)"
proof -
  assume c: "c \<in> set s"
  have a: "set s = set (takeWhile is_space s) \<union> set (dropWhile is_space s)"
    by (metis set_append takeWhile_dropWhile_id)
  let ?t = "rev (dropWhile is_space s)"
  have b: "set ?t = set (takeWhile is_space ?t) \<union> set (dropWhile is_space ?t)"
    by (metis set_append takeWhile_dropWhile_id)
  show ?thesis
    using c a b by (auto simp: strip_def dest: set_takeWhileD)
qed

lemma py_int_chars:
  assumes "py_int s = Some k" "c \<in> set s"
  shows "is_space c \<or> is_digit c \<or> c = 95 \<or> c = 43 \<or> c = 45"
proof (cases "is_space c")
  case True
  then show ?thesis by simp
next
  case False
  with assms(2) have "c \<in> set (strip s)" using strip_chars by blast
  with assms(1) show ?thesis
    by (auto simp: py_int_def split: list.splits if_splits dest!: parse_decimal_chars)
qed

lemma colon_no_digit: "\<not> is_digit colon \<and> \<not> is_space colon"
  by (simp add: is_space_def is_digit_def decimal_of_def decimal_runs_def)

lemma py_int_no_colon: "py_int s = Some k \<Longrightarrow> colon \<notin> set s"
proof
  assume a: "py_int s = Some k" and b: "colon \<in> set s"
  from py_int_chars [OF a b] show False
    using colon_no_digit by simp
qed

lemma utf8_encodable: "encodable s \<Longrightarrow> \<exists>bytes. utf8_encode s = Inr bytes"
  by (induction s) (auto simp: encodable_def)

lemma utf8_not_encodable: "\<not> encodable s \<Longrightarrow> utf8_encode s = Inl UnicodeEncodeError"
proof (induction s)
  case Nil
  then show ?case by (simp add: encodable_def)
next
  case (Cons a s)
  show ?case
  proof (cases "surrogate a")
    case True
    then show ?thesis by simp
  next
    case False
    with Cons.prems have "\<not> encodable s" by (simp add: encodable_def)
    then have "utf8_encode s = Inl UnicodeEncodeError" by (rule Cons.IH)
    with False show ?thesis by simp
  qed
qed

lemma colon_cases:
  obtains (none) "c \<notin> set s"
  | (one) p v where "s = p @ c # v" "c \<notin> set p" "c \<notin> set v"
  | (many) q n v where "s = q @ c # n @ c # v" "c \<notin> set n" "c \<notin> set v"
proof (cases "c \<in> set s")
  case False
  then show ?thesis by (rule none)
next
  case True
  then obtain p v where s: "s = p @ c # v" and v: "c \<notin> set v"
    by (meson split_list_last)
  show ?thesis
  proof (cases "c \<in> set p")
    case False
    show ?thesis using s False v by (rule one)
  next
    case True
    then obtain q n where p: "p = q @ c # n" and n: "c \<notin> set n"
      by (meson split_list_last)
    from s p have "s = q @ c # n @ c # v" by simp
    then show ?thesis using n v by (rule many)
  qed
qed

lemma rsplit_one: "c \<notin> set v \<Longrightarrow> rsplit (p @ c # v) c (Suc 0) = [p, v]"
  using rsplit_last [of c v p 0] by (simp add: rsplit_zero)

lemma rsplit_two_short:
  "c \<notin> set v \<Longrightarrow> c \<notin> set p \<Longrightarrow> rsplit (p @ c # v) c 2 = [p, v]"
  using rsplit_last [of c v p "Suc 0"] by (simp add: rsplit_absent numeral_2_eq_2)

lemma rsplit_two:
  "c \<notin> set v \<Longrightarrow> c \<notin> set n \<Longrightarrow> rsplit (q @ c # n @ c # v) c 2 = [q, n, v]"
  using rsplit_last [of c v "q @ c # n" "Suc 0"] rsplit_last [of c n q 0]
  by (simp add: rsplit_zero numeral_2_eq_2)

lemma final_segment_last:
  "colon \<notin> set v \<Longrightarrow> final_segment (p @ colon # v) = v"
  by (simp add: final_segment_def takeWhile_first)

lemma final_segment_absent:
  assumes "colon \<notin> set s"
  shows "final_segment s = s"
proof -
  have h: "takeWhile (\<lambda>c. c \<noteq> colon) (rev s) = rev s"
    using assms by (induction s) (auto simp: takeWhile_tail)
  show ?thesis unfolding final_segment_def h by simp
qed

lemma filter_absent: "c \<notin> set s \<Longrightarrow> filter (\<lambda>x. x = c) s = []"
  by (induction s) auto

lemma hexchar_lower: "n < 16 \<Longrightarrow> hexchar n \<in> lower_hex"
  unfolding hexchar_def lower_hex_def by (rule nth_mem) (simp add: lit_def)

lemma hex32_length: "length (hex32 w) = 8"
  by (simp add: hex32_def)

lemma hex32_lower: "set (hex32 w) \<subseteq> lower_hex"
  by (auto simp: hex32_def intro!: hexchar_lower)

lemma hexdigest_length: "length (hexdigest s) = 64"
  by (cases s rule: hexdigest.cases) (simp add: hex32_length)

lemma hexdigest_lower: "set (hexdigest s) \<subseteq> lower_hex"
  using hex32_lower by (cases s rule: hexdigest.cases) auto

lemma sha256_hexdigest_length: "length (sha256_hexdigest m) = 64"
  by (simp add: sha256_hexdigest_def hexdigest_length)

lemma sha256_hexdigest_lower: "set (sha256_hexdigest m) \<subseteq> lower_hex"
  by (simp add: sha256_hexdigest_def hexdigest_lower)

lemma name_published:
  assumes "colon \<notin> set v" "colon \<notin> set n"
    and "utf8_encode (q @ colon # n @ colon # v) = Inr bytes"
  shows "compute_layer_name False (q @ colon # n @ colon # v) =
           Inr (n @ lit ''-'' @ v @ lit ''-'' @ take 10 (sha256_hexdigest bytes))"
  using assms by (simp add: compute_layer_name_def rsplit_two LAYER_NAME_DELIMETER_def)

lemma name_unencodable:
  assumes "colon \<notin> set v" "colon \<notin> set n"
    and "\<not> encodable (q @ colon # n @ colon # v)"
  shows "compute_layer_name False (q @ colon # n @ colon # v) = Inl UnicodeEncodeError"
  using assms(1,2) utf8_not_encodable [OF assms(3)]
  by (simp add: compute_layer_name_def rsplit_two)

lemma version_published:
  assumes "colon \<notin> set v"
  shows "compute_layer_version False (p @ colon # v) =
           (case py_int v of None \<Rightarrow> Inl (invalid_arn (p @ colon # v)) | Some k \<Rightarrow> Inr (Some k))"
  using assms by (simp add: compute_layer_version_def rsplit_one)

section \<open>Facts about the constructor\<close>

lemma init_template:
  assumes "py_bool codeuri"
  shows "LayerVersion_init (PyStr arn) codeuri =
           Inr \<lparr>lv_arn = arn, lv_codeuri = codeuri, is_defined_within_template = True,
                lv_name = arn, lv_version = None\<rparr>"
  using assms
  by (simp add: LayerVersion_init_def compute_layer_name_def compute_layer_version_def)

lemma colon_segments_absent: "colon \<notin> set s \<Longrightarrow> colon_segments s = 1"
  by (simp add: colon_segments_def filter_absent)

lemma colon_segments_last:
  "colon_segments (p @ colon # v) = colon_segments p + colon_segments v"
  by (simp add: colon_segments_def)

lemma colon_segments_pos: "0 < colon_segments s"
  by (simp add: colon_segments_def)

lemma init_no_colon:
  assumes "colon \<notin> set arn" "\<not> py_bool codeuri"
  shows "LayerVersion_init (PyStr arn) codeuri = Inl (invalid_arn arn)"
  using assms by (simp add: LayerVersion_init_def compute_layer_name_def rsplit_absent)

lemma init_one_colon:
  assumes "colon \<notin> set p" "colon \<notin> set v" "\<not> py_bool codeuri"
  shows "LayerVersion_init (PyStr (p @ colon # v)) codeuri = Inl (invalid_arn (p @ colon # v))"
  using assms by (simp add: LayerVersion_init_def compute_layer_name_def rsplit_two_short)

lemma init_many_colons:
  assumes "colon \<notin> set n" "colon \<notin> set v" "\<not> py_bool codeuri"
    and "utf8_encode (q @ colon # n @ colon # v) = Inr bytes"
  shows "LayerVersion_init (PyStr (q @ colon # n @ colon # v)) codeuri =
     (case py_int v of
        None \<Rightarrow> Inl (invalid_arn (q @ colon # n @ colon # v))
      | Some k \<Rightarrow>
          Inr \<lparr>lv_arn = q @ colon # n @ colon # v, lv_codeuri = codeuri,
               is_defined_within_template = False,
               lv_name = n @ lit ''-'' @ v @ lit ''-'' @ take 10 (sha256_hexdigest bytes),
               lv_version = Some k\<rparr>)"
proof -
  let ?arn = "q @ colon # n @ colon # v"
  have name: "compute_layer_name False ?arn =
      Inr (n @ lit ''-'' @ v @ lit ''-'' @ take 10 (sha256_hexdigest bytes))"
    using assms(2) assms(1) assms(4) by (rule name_published)
  have "compute_layer_version False ((q @ colon # n) @ colon # v) =
      (case py_int v of None \<Rightarrow> Inl (invalid_arn ((q @ colon # n) @ colon # v))
       | Some k \<Rightarrow> Inr (Some k))"
    using assms(2) by (rule version_published)
  then have version: "compute_layer_version False ?arn =
      (case py_int v of None \<Rightarrow> Inl (invalid_arn ?arn) | Some k \<Rightarrow> Inr (Some k))"
    by (simp cong: option.case_cong)
  show ?thesis
    using name version assms(3)
    by (simp add: LayerVersion_init_def split: option.split)
qed

lemma init_unencodable:
  assumes "colon \<notin> set n" "colon \<notin> set v" "\<not> py_bool codeuri"
    and "\<not> encodable (q @ colon # n @ colon # v)"
  shows "LayerVersion_init (PyStr (q @ colon # n @ colon # v)) codeuri = Inl UnicodeEncodeError"
  using assms(3) name_unencodable [OF assms(2) assms(1) assms(4)]
  by (simp add: LayerVersion_init_def)

lemma init_published:
  assumes "\<not> py_bool codeuri"
  shows "colon_segments arn < 3 \<and> LayerVersion_init (PyStr arn) codeuri = Inl (invalid_arn arn)
     \<or> \<not> colon_segments arn < 3 \<and> \<not> encodable arn
         \<and> LayerVersion_init (PyStr arn) codeuri = Inl UnicodeEncodeError
     \<or> \<not> colon_segments arn < 3 \<and> encodable arn \<and> py_int (final_segment arn) = None
         \<and> LayerVersion_init (PyStr arn) codeuri = Inl (invalid_arn arn)
     \<or> \<not> colon_segments arn < 3 \<and> encodable arn \<and> py_int (final_segment arn) \<noteq> None
         \<and> (\<exists>lv. LayerVersion_init (PyStr arn) codeuri = Inr lv)"
proof (cases rule: colon_cases [of colon arn])
  case none
  then show ?thesis
    using assms by (simp add: init_no_colon colon_segments_absent)
next
  case (one p v)
  then show ?thesis
    using assms
    by (simp add: init_one_colon colon_segments_last colon_segments_absent)
next
  case (many q n v)
  have seg: "\<not> colon_segments arn < 3"
    using many colon_segments_pos [of q]
    by (simp add: colon_segments_last colon_segments_absent)
  have fin: "final_segment arn = v"
    using many final_segment_last [of v "q @ colon # n"] by simp
  show ?thesis
  proof (cases "encodable arn")
    case False
    then have "LayerVersion_init (PyStr arn) codeuri = Inl UnicodeEncodeError"
      unfolding many(1) using many(2) many(3) assms by (simp add: init_unencodable)
    with seg False show ?thesis by simp
  next
    case True
    then have "\<exists>bytes. utf8_encode arn = Inr bytes"
      by (rule utf8_encodable)
    then obtain bytes where "utf8_encode arn = Inr bytes"
      by (elim exE)
    then have b: "utf8_encode (q @ colon # n @ colon # v) = Inr bytes"
      unfolding many(1) .
    show ?thesis
      using seg fin True many(1) init_many_colons [OF many(2) many(3) assms b]
      by (auto split: option.splits)
  qed
qed

lemma layer_arn_last:
  assumes "lv_arn lv = p @ colon # v" "colon \<notin> set v"
  shows "layer_arn lv = Inr p"
proof -
  have "rsplit (p @ colon # v) colon (Suc 0) = [p, v]"
    using assms(2) by (rule rsplit_one)
  then show ?thesis
    unfolding layer_arn_def assms(1) by (simp only: One_nat_def list.case)
qed

lemma init_arn: "LayerVersion_init (PyStr arn) codeuri = Inr lv \<Longrightarrow> lv_arn lv = arn"
  by (auto simp: LayerVersion_init_def Let_def split: sum.splits)

section \<open>Facts about equality of values\<close>

lemma map_of_key: "k \<in> fst ` set kvs \<Longrightarrow> \<exists>v. map_of kvs k = Some v \<and> (k, v) \<in> set kvs"
  by (induction kvs) auto

lemma py_eq_dict_intro:
  assumes "set (map fst xs) = set (map fst ys)"
    and "\<And>k. k \<in> fst ` set xs \<Longrightarrow> \<exists>v w. map_of xs k = Some v \<and> map_of ys k = Some w \<and> py_eq v w"
  shows "py_eq (PyDict xs) (PyDict ys)"
proof -
  have "case map_of xs k of None \<Rightarrow> False
        | Some v \<Rightarrow> (case map_of ys k of None \<Rightarrow> False | Some w \<Rightarrow> py_eq v w)"
    if "k \<in> set (map fst xs)" for k
  proof -
    from that have "k \<in> fst ` set xs" by simp
    then obtain v w where "map_of xs k = Some v" "map_of ys k = Some w" "py_eq v w"
      using assms(2) by blast
    then show ?thesis by simp
  qed
  then have "\<forall>k \<in> set (map fst xs). case map_of xs k of None \<Rightarrow> False
        | Some v \<Rightarrow> (case map_of ys k of None \<Rightarrow> False | Some w \<Rightarrow> py_eq v w)"
    by (rule ballI)
  with assms(1) show ?thesis
    by (simp only: py_eq.simps simp_thms)
qed


lemma py_eq_dict_unfold:
  "py_eq (PyDict xs) (PyDict ys) \<Longrightarrow>
   set (map fst xs) = set (map fst ys) \<and>
   (\<forall>k \<in> set (map fst xs). case map_of xs k of None \<Rightarrow> False
        | Some v \<Rightarrow> (case map_of ys k of None \<Rightarrow> False | Some w \<Rightarrow> py_eq v w))"
  by (rule iffD1, rule py_eq.simps)

lemma py_eq_dict_dest:
  assumes "py_eq (PyDict xs) (PyDict ys)" "k \<in> fst ` set xs"
  shows "\<exists>v w. map_of xs k = Some v \<and> map_of ys k = Some w \<and> py_eq v w"
proof -
  from assms(2) have k: "k \<in> set (map fst xs)" by simp
  have "\<forall>k \<in> set (map fst xs). case map_of xs k of None \<Rightarrow> False
        | Some v \<Rightarrow> (case map_of ys k of None \<Rightarrow> False | Some w \<Rightarrow> py_eq v w)"
    using py_eq_dict_unfold [OF assms(1)] by (rule conjunct2)
  from this k have c: "case map_of xs k of None \<Rightarrow> False
        | Some v \<Rightarrow> (case map_of ys k of None \<Rightarrow> False | Some w \<Rightarrow> py_eq v w)"
    by (rule bspec)
  then obtain v where v: "map_of xs k = Some v"
    by (cases "map_of xs k") simp_all
  with c have c': "case map_of ys k of None \<Rightarrow> False | Some w \<Rightarrow> py_eq v w"
    by (simp only: option.case)
  then obtain w where w: "map_of ys k = Some w"
    by (cases "map_of ys k") simp_all
  with c' have "py_eq v w" by (simp only: option.case)
  with v w show ?thesis by blast
qed

lemma py_eq_dict_keys: "py_eq (PyDict xs) (PyDict ys) \<Longrightarrow> set (map fst xs) = set (map fst ys)"
  using py_eq_dict_unfold by (rule conjunct1)

lemma py_eq_list_refl:
  assumes "\<And>x. x \<in> set xs \<Longrightarrow> py_eq x x"
  shows "py_eq (PyList xs) (PyList xs)"
proof -
  have "list_all2 py_eq xs xs"
    unfolding list_all2_same using assms by blast
  then show ?thesis by (simp only: py_eq.simps)
qed

lemma py_eq_dict_refl:
  assumes "\<And>k v. (k, v) \<in> set kvs \<Longrightarrow> py_eq v v"
  shows "py_eq (PyDict kvs) (PyDict kvs)"
proof (rule py_eq_dict_intro)
  show "set (map fst kvs) = set (map fst kvs)" by (rule refl)
next
  fix k assume "k \<in> fst ` set kvs"
  then have "\<exists>v. map_of kvs k = Some v \<and> (k, v) \<in> set kvs"
    by (rule map_of_key)
  then obtain v where v: "map_of kvs k = Some v" and m: "(k, v) \<in> set kvs"
    by (elim exE conjE)
  from m have "py_eq v v" by (rule assms)
  with v show "\<exists>v w. map_of kvs k = Some v \<and> map_of kvs k = Some w \<and> py_eq v w"
    by blast
qed


lemma py_eq_refl: "py_eq v v"
proof (induction v)
  case (PyList xs)
  then show ?case by (rule py_eq_list_refl)
next
  case (PyDict kvs)
  show ?case
  proof (rule py_eq_dict_refl)
    fix k v assume m: "(k, v) \<in> set kvs"
    have "v \<in> Basic_BNFs.snds (k, v)" by simp
    with m show "py_eq v v" by (rule PyDict.IH)
  qed
qed simp_all

lemma list_all2_flip:
  assumes "list_all2 P xs ys" "\<And>x y. x \<in> set xs \<Longrightarrow> P x y \<Longrightarrow> P y x"
  shows "list_all2 P ys xs"
  using assms by (induction rule: list_all2_induct) auto

lemma py_eq_list_sym:
  assumes "py_eq (PyList xs) b" "\<And>x y. x \<in> set xs \<Longrightarrow> py_eq x y \<Longrightarrow> py_eq y x"
  shows "py_eq b (PyList xs)"
proof (cases b)
  case b: (PyList ys)
  from assms(1) have "list_all2 py_eq xs ys"
    unfolding b by (simp only: py_eq.simps)
  then have "list_all2 py_eq ys xs"
    using assms(2) by (rule list_all2_flip)
  then show ?thesis unfolding b by (simp only: py_eq.simps)
qed (use assms(1) in simp_all)

lemma py_eq_dict_sym:
  assumes "py_eq (PyDict kvs) b" "\<And>k v w. (k, v) \<in> set kvs \<Longrightarrow> py_eq v w \<Longrightarrow> py_eq w v"
  shows "py_eq b (PyDict kvs)"
proof (cases b)
  case b: (PyDict kws)
  have e: "py_eq (PyDict kvs) (PyDict kws)"
    using assms(1) unfolding b .
  have keys: "set (map fst kvs) = set (map fst kws)"
    using e by (rule py_eq_dict_keys)
  have "py_eq (PyDict kws) (PyDict kvs)"
  proof (rule py_eq_dict_intro)
    show "set (map fst kws) = set (map fst kvs)" using keys by (rule sym)
  next
    fix k assume "k \<in> fst ` set kws"
    then have "k \<in> fst ` set kvs" using keys by simp
    with e have "\<exists>v w. map_of kvs k = Some v \<and> map_of kws k = Some w \<and> py_eq v w"
      by (rule py_eq_dict_dest)
    then obtain v w where v: "map_of kvs k = Some v" and w: "map_of kws k = Some w"
      and vw: "py_eq v w"
      by (elim exE conjE)
    from v have "(k, v) \<in> set kvs" by (rule map_of_SomeD)
    then have "py_eq w v" using vw by (rule assms(2))
    with v w show "\<exists>v w. map_of kws k = Some v \<and> map_of kvs k = Some w \<and> py_eq v w"
      by (intro exI conjI)
  qed
  then show ?thesis unfolding b .
qed (use assms(1) in simp_all)

lemma py_eq_sym: "py_eq a b \<Longrightarrow> py_eq b a"
proof (induction a arbitrary: b)
  case PyNone
  then show ?case by (cases b) simp_all
next
  case (PyBool x)
  then show ?case by (cases b) auto
next
  case (PyInt x)
  then show ?case by (cases b) auto
next
  case (PyStr x)
  then show ?case by (cases b) auto
next
  case (PyList xs)
  from PyList.prems show ?case
  proof (rule py_eq_list_sym)
    fix x y assume "x \<in> set xs" "py_eq x y"
    then show "py_eq y x" by (rule PyList.IH)
  qed
next
  case (PyDict kvs)
  from PyDict.prems show ?case
  proof (rule py_eq_dict_sym)
    fix k v w assume m: "(k, v) \<in> set kvs" and e: "py_eq v w"
    have "v \<in> Basic_BNFs.snds (k, v)" by simp
    with m show "py_eq w v" using e by (rule PyDict.IH)
  qed
qed

lemma dict_eq_refl: "dict_eq x x"
  by (simp add: dict_eq_def py_eq_refl)

lemma init_codeuri: "LayerVersion_init arn codeuri = Inr lv \<Longrightarrow> lv_codeuri lv = codeuri"
  by (auto simp: LayerVersion_init_def Let_def split: pyval.splits sum.splits)

section \<open>Facts about Cors and hashing\<close>

lemma cors_headers_present:
  "cors_to_headers (Some c) =
     (if allow_origin c = PyNone then [] else [(''Access-Control-Allow-Origin'', allow_origin c)])
     @ (if allow_methods c = PyNone then [] else [(''Access-Control-Allow-Methods'', allow_methods c)])
     @ (if allow_headers c = PyNone then [] else [(''Access-Control-Allow-Headers'', allow_headers c)])
     @ (if max_age c = PyNone then [] else [(''Access-Control-Max-Age'', max_age c)])"
  by (simp add: cors_to_headers_def)

lemma py_hash_error: "py_hash H v = Inl e \<Longrightarrow> e = TypeError"
  by (cases v) simp_all

lemma hash_items_error: "hash_items H vs = Inl e \<Longrightarrow> e = TypeError"
proof (induction vs arbitrary: e)
  case Nil
  then show ?case by simp
next
  case (Cons v vs)
  then show ?case
    by (auto split: sum.splits dest: py_hash_error)
qed

lemma hash_cors_error: "hash_cors H T c = Inl e \<Longrightarrow> e = TypeError"
  unfolding hash_cors_def
  by (cases c) (auto split: sum.splits dest: py_hash_error)

lemma Api_hash_ignores_stage:
  "Api_hash H T (a\<lparr>stage_name := n, stage_variables := vs\<rparr>) = Api_hash H T a"
  by (simp add: Api_hash_def cong: sum.case_cong)

section \<open>SHA-256 on known inputs\<close>

text \<open>
  Two digests computed by the definitions above: the test vector \<open>abc\<close> of the
  standard, and the ARN of the specification's example.
\<close>

lemma replicate_numeral: "replicate (numeral k) x = x # replicate (pred_numeral k) x"
  by (simp add: numeral_eq_Suc)

lemma pad_length:
  "length m = n \<Longrightarrow>
   pad m = m @ [128] @ replicate ((119 - n mod 64) mod 64) 0
           @ map (\<lambda>k. (8 * n) div k mod 256)
               [72057594037927936, 281474976710656, 1099511627776, 4294967296,
                16777216, 65536, 256, 1]"
  by (simp add: pad_def)

lemma blocks_single: "length ws = 16 \<Longrightarrow> blocks s ws = compress s ws"
  by (simp add: blocks.simps)

lemmas sha_eval =
  compress_def K256_def H256_def next_w_def add32_def not32_def shr_def rotr_def
  Ch_def Maj_def bsig0_def bsig1_def ssig0_def ssig1_def

lemma sha256_abc_bytes:
  "utf8_encode (lit ''abc'') =
     Inr [97, 98, 99]"
  by (simp add: lit_def surrogate_def utf8_char_def)

lemma sha256_abc_digest:
  "sha256_hexdigest
     [97, 98, 99] =
   lit ''ba7816bf8f01cfea414140de5dae2223b00361a396177a9cb410ff61f20015ad''"
proof -
  have pad: "pad
      [97, 98, 99] =
      [97, 98, 99, 128, 0, 0, 0, 0, 0, 0, 0, 0, 0, 0, 0, 0, 0, 0, 0, 0, 0, 0, 0, 0, 0, 0, 0,
      0, 0, 0, 0, 0, 0, 0, 0, 0, 0, 0, 0, 0, 0, 0, 0, 0, 0, 0, 0, 0, 0, 0, 0, 0, 0, 0, 0, 0,
      0, 0, 0, 0, 0, 0, 0, 24]"
    by (subst pad_length [where n = 3]) (simp_all add: replicate_numeral)
  have ws: "be32
      [97, 98, 99, 128, 0, 0, 0, 0, 0, 0, 0, 0, 0, 0, 0, 0, 0, 0, 0, 0, 0, 0, 0, 0, 0, 0, 0,
      0, 0, 0, 0, 0, 0, 0, 0, 0, 0, 0, 0, 0, 0, 0, 0, 0, 0, 0, 0, 0, 0, 0, 0, 0, 0, 0, 0, 0,
      0, 0, 0, 0, 0, 0, 0, 24] =
      [1633837952, 0, 0, 0, 0, 0, 0, 0, 0, 0, 0, 0, 0, 0, 0, 24]"
    by simp
  have comp: "compress H256
      [1633837952, 0, 0, 0, 0, 0, 0, 0, 0, 0, 0, 0, 0, 0, 0, 24] =
      (3128432319, 2399260650, 1094795486, 1571693091,
       2953011619, 2518121116, 3021012833, 4060091821)"
    by (simp add: sha_eval)
  show ?thesis
    by (simp add: sha256_hexdigest_def sha256_def pad ws blocks_single comp hex32_def
        hexchar_def lit_def)
qed

lemma sha256_example_arn_bytes:
  "utf8_encode (lit ''arn:aws:lambda:us-east-1:123:layer:mylayer:4'') =
     Inr [97, 114, 110, 58, 97, 119, 115, 58, 108, 97, 109, 98, 100, 97, 58, 117, 115, 45, 101,
         97, 115, 116, 45, 49, 58, 49, 50, 51, 58, 108, 97, 121, 101, 114, 58, 109, 121, 108, 97,
         121, 101, 114, 58, 52]"
  by (simp add: lit_def surrogate_def utf8_char_def)

lemma sha256_example_arn_digest:
  "sha256_hexdigest
     [97, 114, 110, 58, 97, 119, 115, 58, 108, 97, 109, 98, 100, 97, 58, 117, 115, 45, 101,
     97, 115, 116, 45, 49, 58, 49, 50, 51, 58, 108, 97, 121, 101, 114, 58, 109, 121, 108, 97,
     121, 101, 114, 58, 52] =
   lit ''2cf51de6e91af54290b2fa778494d170bf5ee06e21cecad163576af3a7a0ec1e''"
proof -
  have pad: "pad
      [97, 114, 110, 58, 97, 119, 115, 58, 108, 97, 109, 98, 100, 97, 58, 117, 115, 45, 101,
      97, 115, 116, 45, 49, 58, 49, 50, 51, 58, 108, 97, 121, 101, 114, 58, 109, 121, 108, 97,
      121, 101, 114, 58, 52] =
      [97, 114, 110, 58, 97, 119, 115, 58, 108, 97, 109, 98, 100, 97, 58, 117, 115, 45, 101,
      97, 115, 116, 45, 49, 58, 49, 50, 51, 58, 108, 97, 121, 101, 114, 58, 109, 121, 108, 97,
      121, 101, 114, 58, 52, 128, 0, 0, 0, 0, 0, 0, 0, 0, 0, 0, 0, 0, 0, 0, 0, 0, 0, 1, 96]"
    by (subst pad_length [where n = 44]) (simp_all add: replicate_numeral)
  have ws: "be32
      [97, 114, 110, 58, 97, 119, 115, 58, 108, 97, 109, 98, 100, 97, 58, 117, 115, 45, 101,
      97, 115, 116, 45, 49, 58, 49, 50, 51, 58, 108, 97, 121, 101, 114, 58, 109, 121, 108, 97,
      121, 101, 114, 58, 52, 128, 0, 0, 0, 0, 0, 0, 0, 0, 0, 0, 0, 0, 0, 0, 0, 0, 0, 1, 96] =
      [1634889274, 1635218234, 1818324322, 1684093557, 1932354913, 1936993585, 976302643,
      980181369, 1701984877, 2037145977, 1701984820, 2147483648, 0, 0, 0, 352]"
    by simp
  have comp: "compress H256
      [1634889274, 1635218234, 1818324322, 1684093557, 1932354913, 1936993585, 976302643,
      980181369, 1701984877, 2037145977, 1701984820, 2147483648, 0, 0, 0, 352] =
      (754261478, 3910858050, 2427648631, 2224345456,
       3210666094, 567200465, 1666673395, 2812341278)"
    by (simp add: sha_eval)
  show ?thesis
    by (simp add: sha256_hexdigest_def sha256_def pad ws blocks_single comp hex32_def
        hexchar_def lit_def)
qed

section \<open>The claims\<close>

text \<open>
  C1, as the code has it. For an ARN \<open>p:n:v\<close> that has a UTF-8 encoding (no
  surrogate in it), whose segment \<open>n\<close> holds no colon and whose final segment \<open>v\<close> is
  an integer literal of value \<open>k\<close> (a non-negative one in particular), the constructor
  with a falsy \<open>codeuri\<close> succeeds with version \<open>k\<close> and the name \<open>n-v-suffix\<close>, where
  the suffix is the first 10 characters of the hexadecimal SHA-256 digest of the UTF-8
  encoding of the whole ARN: exactly 10 lowercase hexadecimal digits. The prefix \<open>p\<close>
  is arbitrary, \<open>...:layer\<close> included.
\<close>

theorem published_layer_name_and_version:
  assumes "py_int v = Some k" and "colon \<notin> set n" and "\<not> py_bool codeuri"
    and "encodable (p @ colon # n @ colon # v)"
  shows "\<exists>bytes. utf8_encode (p @ colon # n @ colon # v) = Inr bytes
         \<and> LayerVersion_init (PyStr (p @ colon # n @ colon # v)) codeuri =
             Inr \<lparr>lv_arn = p @ colon # n @ colon # v, lv_codeuri = codeuri,
                  is_defined_within_template = False,
                  lv_name = n @ lit ''-'' @ v @ lit ''-'' @ take 10 (sha256_hexdigest bytes),
                  lv_version = Some k\<rparr>
         \<and> length (take 10 (sha256_hexdigest bytes)) = 10
         \<and> set (take 10 (sha256_hexdigest bytes)) \<subseteq> lower_hex"
proof -
  let ?arn = "p @ colon # n @ colon # v"
  have v: "colon \<notin> set v"
    using assms(1) by (rule py_int_no_colon)
  from assms(4) have "\<exists>bytes. utf8_encode ?arn = Inr bytes"
    by (rule utf8_encodable)
  then obtain bytes where bytes: "utf8_encode ?arn = Inr bytes"
    by (elim exE)
  have init: "LayerVersion_init (PyStr ?arn) codeuri =
      Inr \<lparr>lv_arn = ?arn, lv_codeuri = codeuri, is_defined_within_template = False,
           lv_name = n @ lit ''-'' @ v @ lit ''-'' @ take 10 (sha256_hexdigest bytes),
           lv_version = Some k\<rparr>"
    using init_many_colons [OF assms(2) v assms(3) bytes] assms(1) by simp
  have len: "length (take 10 (sha256_hexdigest bytes)) = 10"
    by (simp add: sha256_hexdigest_length)
  have hex: "set (take 10 (sha256_hexdigest bytes)) \<subseteq> lower_hex"
    using sha256_hexdigest_lower set_take_subset by fastforce
  from bytes init len hex show ?thesis
    by (intro exI conjI)
qed

theorem published_layer_name_and_version_witness:
  "py_int (lit ''4'') = Some 4 \<and> colon \<notin> set (lit ''mylayer'') \<and> \<not> py_bool PyNone
   \<and> encodable (lit ''arn:aws:lambda:us-east-1:123:layer:mylayer:4'')
   \<and> LayerVersion_init (PyStr (lit ''arn:aws:lambda:us-east-1:123:layer:mylayer:4'')) PyNone =
       Inr \<lparr>lv_arn = lit ''arn:aws:lambda:us-east-1:123:layer:mylayer:4'', lv_codeuri = PyNone,
            is_defined_within_template = False, lv_name = lit ''mylayer-4-2cf51de6e9'',
            lv_version = Some 4\<rparr>"
proof -
  let ?arn = "lit ''arn:aws:lambda:us-east-1:123:layer:mylayer:4''"
  let ?p = "lit ''arn:aws:lambda:us-east-1:123:layer''"
  have v: "py_int (lit ''4'') = Some 4"
    by (simp add: py_int_eval)
  have n: "colon \<notin> set (lit ''mylayer'')"
    by (simp add: lit_def)
  have c: "\<not> py_bool PyNone"
    by simp
  have split: "?p @ colon # lit ''mylayer'' @ colon # lit ''4'' = ?arn"
    by (simp add: lit_def)
  have e: "encodable ?arn"
    by (simp add: encodable_def surrogate_def lit_def)
  then have e': "encodable (?p @ colon # lit ''mylayer'' @ colon # lit ''4'')"
    unfolding split .
  have "\<exists>bytes. utf8_encode (?p @ colon # lit ''mylayer'' @ colon # lit ''4'') = Inr bytes
         \<and> LayerVersion_init (PyStr (?p @ colon # lit ''mylayer'' @ colon # lit ''4'')) PyNone =
             Inr \<lparr>lv_arn = ?p @ colon # lit ''mylayer'' @ colon # lit ''4'', lv_codeuri = PyNone,
                  is_defined_within_template = False,
                  lv_name = lit ''mylayer'' @ lit ''-'' @ lit ''4'' @ lit ''-''
                    @ take 10 (sha256_hexdigest bytes),
                  lv_version = Some 4\<rparr>
         \<and> length (take 10 (sha256_hexdigest bytes)) = 10
         \<and> set (take 10 (sha256_hexdigest bytes)) \<subseteq> lower_hex"
    using v n c e' by (rule published_layer_name_and_version)
  then obtain bytes where b: "utf8_encode ?arn = Inr bytes"
    and i: "LayerVersion_init (PyStr ?arn) PyNone =
             Inr \<lparr>lv_arn = ?arn, lv_codeuri = PyNone, is_defined_within_template = False,
                  lv_name = lit ''mylayer'' @ lit ''-'' @ lit ''4'' @ lit ''-''
                    @ take 10 (sha256_hexdigest bytes),
                  lv_version = Some 4\<rparr>"
    unfolding split by (elim exE conjE)
  have "Inr bytes = (Inr [97, 114, 110, 58, 97, 119, 115, 58, 108, 97, 109, 98, 100, 97, 58, 117, 115, 45, 101,
      97, 115, 116, 45, 49, 58, 49, 50, 51, 58, 108, 97, 121, 101, 114, 58, 109, 121, 108, 97,
      121, 101, 114, 58, 52] :: pyerr + nat list)"
    using b sha256_example_arn_bytes by (rule trans [OF sym])
  then have bytes: "bytes = [97, 114, 110, 58, 97, 119, 115, 58, 108, 97, 109, 98, 100, 97, 58, 117, 115, 45, 101,
      97, 115, 116, 45, 49, 58, 49, 50, 51, 58, 108, 97, 121, 101, 114, 58, 109, 121, 108, 97,
      121, 101, 114, 58, 52]"
    by (simp only: sum.inject)
  have d: "take 10 (sha256_hexdigest bytes) = lit ''2cf51de6e9''"
    unfolding bytes sha256_example_arn_digest by (simp add: lit_def)
  have name: "lit ''mylayer'' @ lit ''-'' @ lit ''4'' @ lit ''-'' @ lit ''2cf51de6e9'' =
      lit ''mylayer-4-2cf51de6e9''"
    by (simp add: lit_def)
  from i have "LayerVersion_init (PyStr ?arn) PyNone =
      Inr \<lparr>lv_arn = ?arn, lv_codeuri = PyNone, is_defined_within_template = False,
           lv_name = lit ''mylayer-4-2cf51de6e9'', lv_version = Some 4\<rparr>"
    unfolding d name .
  with v n c e show ?thesis by (intro conjI)
qed

text \<open>
  C1 as stated, for every string of the form, fails where the ARN holds a surrogate:
  \<open>arn.encode('utf-8')\<close> stands after the \<open>try\<close> block of \<open>_compute_layer_name\<close>, and
  its \<open>UnicodeEncodeError\<close> ends the constructor.
\<close>

theorem published_layer_counterexample:
  "py_int (lit ''1'') = Some 1 \<and> colon \<notin> set (lit ''x'') \<and> \<not> py_bool PyNone
   \<and> 55296 # lit '':layer:x:1'' = (55296 # lit '':layer'') @ colon # lit ''x'' @ colon # lit ''1''
   \<and> LayerVersion_init (PyStr (55296 # lit '':layer:x:1'')) PyNone = Inl UnicodeEncodeError"
proof -
  have a: "py_int (lit ''1'') = Some 1"
    by (simp add: py_int_eval)
  have b: "colon \<notin> set (lit ''x'')"
    by (simp add: lit_def)
  have c: "55296 # lit '':layer:x:1'' =
      (55296 # lit '':layer'') @ colon # lit ''x'' @ colon # lit ''1''"
    by (simp add: lit_def)
  have d: "colon \<notin> set (lit ''1'')"
    by (simp add: lit_def)
  have e: "\<not> encodable ((55296 # lit '':layer'') @ colon # lit ''x'' @ colon # lit ''1'')"
    by (simp add: encodable_def surrogate_def)
  have "LayerVersion_init
      (PyStr ((55296 # lit '':layer'') @ colon # lit ''x'' @ colon # lit ''1'')) PyNone =
      Inl UnicodeEncodeError"
    using b d _ e by (rule init_unencodable) simp
  then have f: "LayerVersion_init (PyStr (55296 # lit '':layer:x:1'')) PyNone =
      Inl UnicodeEncodeError"
    unfolding c [symmetric] .
  from a b c f show ?thesis by simp
qed

text \<open>
  C2, as the code has it. With a falsy \<open>codeuri\<close> and a string \<open>arn\<close> that has a UTF-8
  encoding, the constructor raises \<open>InvalidLayerVersionArn\<close> exactly when \<open>arn\<close> has
  fewer than three colon-delimited segments or its final segment is no integer
  literal; in every other case it returns a \<open>LayerVersion\<close>, so it raises nothing else.
\<close>

theorem invalid_arn_iff:
  assumes "\<not> py_bool codeuri" and "encodable arn"
  shows "((\<exists>m. LayerVersion_init (PyStr arn) codeuri = Inl (InvalidLayerVersionArn m))
            \<longleftrightarrow> (colon_segments arn < 3 \<or> py_int (final_segment arn) = None))
         \<and> ((\<exists>lv. LayerVersion_init (PyStr arn) codeuri = Inr lv)
            \<longleftrightarrow> \<not> (colon_segments arn < 3 \<or> py_int (final_segment arn) = None))"
  using init_published [OF assms(1), of arn] assms(2) by (auto simp: invalid_arn_def)

theorem invalid_arn_iff_witness:
  "\<not> py_bool PyNone \<and>
   (\<exists>m. LayerVersion_init (PyStr (lit ''not-an-arn'')) PyNone = Inl (InvalidLayerVersionArn m)) \<and>
   colon_segments (lit ''not-an-arn'') < 3 \<and>
   (\<exists>m. LayerVersion_init (PyStr (lit ''a:layer:name:x1'')) PyNone =
      Inl (InvalidLayerVersionArn m)) \<and>
   py_int (final_segment (lit ''a:layer:name:x1'')) = None \<and>
   (\<exists>lv. LayerVersion_init (PyStr (lit ''a:layer:name:41'')) PyNone = Inr lv) \<and>
   colon_segments (lit ''a:layer:name:41'') = 4 \<and>
   py_int (final_segment (lit ''a:layer:name:41'')) = Some 41"
proof -
  have a: "colon_segments (lit ''not-an-arn'') < 3"
    by (simp add: colon_segments_def lit_def)
  have b: "py_int (final_segment (lit ''a:layer:name:x1'')) = None"
    by (simp add: final_segment_def py_int_eval)
  have c: "colon_segments (lit ''a:layer:name:41'') = 4"
    by (simp add: colon_segments_def lit_def)
  have d: "py_int (final_segment (lit ''a:layer:name:41'')) = Some 41"
    by (simp add: final_segment_def py_int_eval)
  have e: "encodable (lit ''not-an-arn'')" "encodable (lit ''a:layer:name:x1'')"
    "encodable (lit ''a:layer:name:41'')"
    by (simp_all add: encodable_def surrogate_def lit_def)
  show ?thesis
    using a b c d
      invalid_arn_iff [of PyNone "lit ''not-an-arn''", OF _ e(1)]
      invalid_arn_iff [of PyNone "lit ''a:layer:name:x1''", OF _ e(2)]
      invalid_arn_iff [of PyNone "lit ''a:layer:name:41''", OF _ e(3)]
    by simp
qed

text \<open>
  C2 as stated, for every string, fails where \<open>arn\<close> holds a surrogate and has three
  segments: the constructor raises \<open>UnicodeEncodeError\<close>, not \<open>InvalidLayerVersionArn\<close>,
  when the final segment is no integer literal, and it does not succeed when it is one.
\<close>

theorem invalid_arn_counterexample:
  "\<not> py_bool PyNone
   \<and> \<not> colon_segments (55296 # lit '':x:y'') < 3
   \<and> py_int (final_segment (55296 # lit '':x:y'')) = None
   \<and> LayerVersion_init (PyStr (55296 # lit '':x:y'')) PyNone = Inl UnicodeEncodeError
   \<and> \<not> colon_segments (55296 # lit '':x:1'') < 3
   \<and> py_int (final_segment (55296 # lit '':x:1'')) = Some 1
   \<and> LayerVersion_init (PyStr (55296 # lit '':x:1'')) PyNone = Inl UnicodeEncodeError"
proof -
  have s1: "\<not> colon_segments (55296 # lit '':x:y'') < 3"
    and s2: "\<not> colon_segments (55296 # lit '':x:1'') < 3"
    by (simp_all add: colon_segments_def lit_def)
  have p1: "py_int (final_segment (55296 # lit '':x:y'')) = None"
    by (simp add: final_segment_def py_int_eval)
  have p2: "py_int (final_segment (55296 # lit '':x:1'')) = Some 1"
    by (simp add: final_segment_def py_int_eval)
  have u1: "\<not> encodable (55296 # lit '':x:y'')" and u2: "\<not> encodable (55296 # lit '':x:1'')"
    by (simp_all add: encodable_def surrogate_def)
  have i1: "LayerVersion_init (PyStr (55296 # lit '':x:y'')) PyNone = Inl UnicodeEncodeError"
    using init_published [of PyNone "55296 # lit '':x:y''"] s1 u1 by simp
  have i2: "LayerVersion_init (PyStr (55296 # lit '':x:1'')) PyNone = Inl UnicodeEncodeError"
    using init_published [of PyNone "55296 # lit '':x:1''"] s2 u2 by simp
  from s1 p1 i1 s2 p2 i2 show ?thesis by simp
qed

text \<open>
  C3. With a truthy \<open>codeuri\<close> every string \<open>arn\<close> is accepted unparsed: the layer is
  defined within the template, its name is \<open>arn\<close> and its version is \<open>None\<close>.
\<close>

theorem template_layer:
  assumes "py_bool codeuri"
  shows "LayerVersion_init (PyStr arn) codeuri =
           Inr \<lparr>lv_arn = arn, lv_codeuri = codeuri, is_defined_within_template = True,
                lv_name = arn, lv_version = None\<rparr>"
  using assms by (rule init_template)

theorem template_layer_witness:
  "py_bool (PyStr (lit ''./layer'')) \<and>
   LayerVersion_init (PyStr (lit ''not:an:arn:x'')) (PyStr (lit ''./layer'')) =
     Inr \<lparr>lv_arn = lit ''not:an:arn:x'', lv_codeuri = PyStr (lit ''./layer''),
          is_defined_within_template = True, lv_name = lit ''not:an:arn:x'',
          lv_version = None\<rparr>"
  using template_layer [of "PyStr (lit ''./layer'')" "lit ''not:an:arn:x''"]
  by (simp add: lit_def)

text \<open>
  C4. An \<open>arn\<close> that is not a string is refused with \<open>UnsupportedIntrinsic\<close>, whatever
  \<open>codeuri\<close> is; the result is that error, so no \<open>InvalidLayerVersionArn\<close> comes of it.
\<close>

theorem non_string_arn:
  assumes "\<not> is_string arn"
  shows "LayerVersion_init arn codeuri = Inl (UnsupportedIntrinsic arn)"
  using assms by (cases arn) (simp_all add: LayerVersion_init_def)

theorem non_string_arn_witness:
  "\<not> is_string (PyInt 123) \<and>
   LayerVersion_init (PyInt 123) PyNone = Inl (UnsupportedIntrinsic (PyInt 123)) \<and>
   \<not> is_string (PyDict [(lit ''Ref'', PyStr (lit ''MyLayer''))]) \<and>
   LayerVersion_init (PyDict [(lit ''Ref'', PyStr (lit ''MyLayer''))]) (PyStr (lit ''./layer'')) =
     Inl (UnsupportedIntrinsic (PyDict [(lit ''Ref'', PyStr (lit ''MyLayer''))]))"
  using non_string_arn [of "PyInt 123" PyNone]
    non_string_arn [of "PyDict [(lit ''Ref'', PyStr (lit ''MyLayer''))]" "PyStr (lit ''./layer'')"]
  by simp

text \<open>
  C5. \<open>cors_to_headers\<close> maps \<open>None\<close> to the empty dictionary. For a \<open>Cors\<close> tuple
  each header name is bound to its field when the field is not \<open>None\<close> and is unbound
  otherwise; the keys are among the four header names, each at most once, and no value
  is \<open>None\<close>.
\<close>

theorem cors_to_headers_mapping:
  "cors_to_headers None = []
   \<and> map_of (cors_to_headers (Some c)) ''Access-Control-Allow-Origin'' =
       (if allow_origin c = PyNone then None else Some (allow_origin c))
   \<and> map_of (cors_to_headers (Some c)) ''Access-Control-Allow-Methods'' =
       (if allow_methods c = PyNone then None else Some (allow_methods c))
   \<and> map_of (cors_to_headers (Some c)) ''Access-Control-Allow-Headers'' =
       (if allow_headers c = PyNone then None else Some (allow_headers c))
   \<and> map_of (cors_to_headers (Some c)) ''Access-Control-Max-Age'' =
       (if max_age c = PyNone then None else Some (max_age c))
   \<and> set (map fst (cors_to_headers (Some c))) \<subseteq>
       {''Access-Control-Allow-Origin'', ''Access-Control-Allow-Methods'',
        ''Access-Control-Allow-Headers'', ''Access-Control-Max-Age''}
   \<and> distinct (map fst (cors_to_headers (Some c)))
   \<and> PyNone \<notin> set (map snd (cors_to_headers (Some c)))"
proof -
  have none: "cors_to_headers None = []"
    by (simp add: cors_to_headers_def)
  show ?thesis
    unfolding cors_headers_present none by simp
qed

theorem cors_to_headers_mapping_witness:
  "cors_to_headers None = []
   \<and> cors_to_headers (Some (Cors_new\<lparr>allow_origin := PyStr (lit ''*'')\<rparr>)) =
       [(''Access-Control-Allow-Origin'', PyStr (lit ''*''))]
   \<and> map_of (cors_to_headers (Some (Cors_new\<lparr>allow_origin := PyStr (lit ''*'')\<rparr>)))
         ''Access-Control-Allow-Origin'' = Some (PyStr (lit ''*''))
   \<and> map_of (cors_to_headers (Some (Cors_new\<lparr>allow_origin := PyStr (lit ''*'')\<rparr>)))
         ''Access-Control-Max-Age'' = None"
  using cors_to_headers_mapping [of "Cors_new\<lparr>allow_origin := PyStr (lit ''*'')\<rparr>"]
  by (simp add: Cors_new_def cors_headers_present)

text \<open>
  C6. For a layer built with a falsy \<open>codeuri\<close>, \<open>arn\<close> has a last colon, and
  \<open>layer_arn\<close> is what stands before it: the ARN without its \<open>:version\<close>.
\<close>

theorem layer_arn_strips_version:
  assumes "\<not> py_bool codeuri" and "LayerVersion_init (PyStr arn) codeuri = Inr lv"
  shows "(\<exists>p v. arn = p @ colon # v \<and> colon \<notin> set v)
       \<and> (\<forall>p v. arn = p @ colon # v \<and> colon \<notin> set v \<longrightarrow> layer_arn lv = Inr p)"
proof
  show "\<exists>p v. arn = p @ colon # v \<and> colon \<notin> set v"
  proof (cases "colon \<in> set arn")
    case True
    then obtain p v where "arn = p @ colon # v" "colon \<notin> set v"
      by (meson split_list_last)
    then show ?thesis by auto
  next
    case False
    then show ?thesis
      using assms by (simp add: init_no_colon)
  qed
  show "\<forall>p v. arn = p @ colon # v \<and> colon \<notin> set v \<longrightarrow> layer_arn lv = Inr p"
    using init_arn [OF assms(2)] by (auto intro: layer_arn_last)
qed

theorem layer_arn_strips_version_witness:
  "\<not> py_bool PyNone \<and>
   (\<exists>lv. LayerVersion_init (PyStr (lit ''arn:aws:lambda:us-east-1:123:layer:mylayer:4'')) PyNone
            = Inr lv
      \<and> layer_arn lv = Inr (lit ''arn:aws:lambda:us-east-1:123:layer:mylayer''))"
proof -
  let ?arn = "lit ''arn:aws:lambda:us-east-1:123:layer:mylayer:4''"
  have s: "\<not> colon_segments ?arn < 3"
    by (simp add: colon_segments_def lit_def)
  have e: "encodable ?arn"
    by (simp add: encodable_def surrogate_def lit_def)
  have v: "py_int (final_segment ?arn) \<noteq> None"
    by (simp add: final_segment_def py_int_eval)
  have "\<exists>lv. LayerVersion_init (PyStr ?arn) PyNone = Inr lv"
    using init_published [of PyNone ?arn] s e v by simp
  then obtain lv where lv: "LayerVersion_init (PyStr ?arn) PyNone = Inr lv"
    by (elim exE)
  have split: "?arn = lit ''arn:aws:lambda:us-east-1:123:layer:mylayer'' @ colon # lit ''4''"
    by (simp add: lit_def)
  have c: "colon \<notin> set (lit ''4'')"
    by (simp add: lit_def)
  have "layer_arn lv = Inr (lit ''arn:aws:lambda:us-east-1:123:layer:mylayer'')"
    using layer_arn_strips_version [of PyNone ?arn lv] lv split c by simp
  with lv show ?thesis by auto
qed

text \<open>
  C7. \<open>__eq__\<close> holds between two \<open>LayerVersion\<close> objects exactly when they agree,
  by \<open>==\<close>, on each of the five attributes. So two objects built from the same
  arguments are equal; once the setter gives one of them a \<open>codeuri\<close> that differs (by
  \<open>==\<close>) from the one they were built with, they are unequal, whichever is on the
  left. A \<open>LayerVersion\<close> is never equal to an object of another type.
\<close>

theorem layer_version_equality:
  assumes "LayerVersion_init arn codeuri = Inr x" and "LayerVersion_init arn codeuri = Inr y"
  shows "LayerVersion_eq x (LayerVersionObj y)
       \<and> (\<not> py_eq c codeuri \<longrightarrow>
            \<not> LayerVersion_eq x (LayerVersionObj (set_codeuri y c))
          \<and> \<not> LayerVersion_eq (set_codeuri y c) (LayerVersionObj x))
       \<and> \<not> LayerVersion_eq x (OtherObj v)
       \<and> (LayerVersion_eq x (LayerVersionObj z) \<longleftrightarrow>
            lv_arn x = lv_arn z \<and> py_eq (lv_codeuri x) (lv_codeuri z)
            \<and> is_defined_within_template x = is_defined_within_template z
            \<and> lv_name x = lv_name z \<and> lv_version x = lv_version z)"
proof -
  have xy: "y = x" using assms by simp
  have cu: "lv_codeuri x = codeuri"
    using assms(1) by (rule init_codeuri)
  have same: "LayerVersion_eq x (LayerVersionObj x)"
    by (simp add: dict_eq_refl)
  have changed: "\<not> LayerVersion_eq x (LayerVersionObj (set_codeuri x c))
          \<and> \<not> LayerVersion_eq (set_codeuri x c) (LayerVersionObj x)" if "\<not> py_eq c codeuri"
  proof -
    have "\<not> py_eq codeuri c"
    proof
      assume "py_eq codeuri c"
      then have "py_eq c codeuri" by (rule py_eq_sym)
      with that show False by contradiction
    qed
    with that show ?thesis
      by (simp add: dict_eq_def set_codeuri_def cu)
  qed
  from changed have changed': "\<not> py_eq c codeuri \<longrightarrow>
      \<not> LayerVersion_eq x (LayerVersionObj (set_codeuri x c))
      \<and> \<not> LayerVersion_eq (set_codeuri x c) (LayerVersionObj x)"
    by (rule impI)
  have other: "\<not> LayerVersion_eq x (OtherObj v)"
    by simp
  have fields: "LayerVersion_eq x (LayerVersionObj z) \<longleftrightarrow>
      lv_arn x = lv_arn z \<and> py_eq (lv_codeuri x) (lv_codeuri z)
      \<and> is_defined_within_template x = is_defined_within_template z
      \<and> lv_name x = lv_name z \<and> lv_version x = lv_version z"
    by (simp add: dict_eq_def)
  show ?thesis
    unfolding xy using same changed' other fields by (intro conjI)
qed

theorem layer_version_equality_witness:
  "LayerVersion_eq
     \<lparr>lv_arn = lit ''LayerA'', lv_codeuri = PyStr (lit ''./layer''),
      is_defined_within_template = True, lv_name = lit ''LayerA'', lv_version = None\<rparr>
     (LayerVersionObj
       \<lparr>lv_arn = lit ''LayerA'', lv_codeuri = PyStr (lit ''./layer''),
        is_defined_within_template = True, lv_name = lit ''LayerA'', lv_version = None\<rparr>)
   \<and> \<not> LayerVersion_eq
     \<lparr>lv_arn = lit ''LayerA'', lv_codeuri = PyStr (lit ''./layer''),
      is_defined_within_template = True, lv_name = lit ''LayerA'', lv_version = None\<rparr>
     (LayerVersionObj
       \<lparr>lv_arn = lit ''LayerA'', lv_codeuri = PyStr (lit ''./other''),
        is_defined_within_template = True, lv_name = lit ''LayerA'', lv_version = None\<rparr>)
   \<and> \<not> LayerVersion_eq
     \<lparr>lv_arn = lit ''LayerA'', lv_codeuri = PyStr (lit ''./layer''),
      is_defined_within_template = True, lv_name = lit ''LayerA'', lv_version = None\<rparr>
     (OtherObj (PyStr (lit ''LayerA'')))
   \<and> \<not> LayerVersion_eq
     \<lparr>lv_arn = lit ''LayerA'', lv_codeuri = PyStr (lit ''./layer''),
      is_defined_within_template = True, lv_name = lit ''LayerA'', lv_version = None\<rparr>
     (LayerVersionObj
       \<lparr>lv_arn = lit ''LayerB'', lv_codeuri = PyStr (lit ''./layer''),
        is_defined_within_template = True, lv_name = lit ''LayerB'', lv_version = None\<rparr>)"
proof -
  let ?lv = "\<lparr>lv_arn = lit ''LayerA'', lv_codeuri = PyStr (lit ''./layer''),
      is_defined_within_template = True, lv_name = lit ''LayerA'', lv_version = None\<rparr>"
  let ?lb = "\<lparr>lv_arn = lit ''LayerB'', lv_codeuri = PyStr (lit ''./layer''),
      is_defined_within_template = True, lv_name = lit ''LayerB'', lv_version = None\<rparr>"
  let ?c = "PyStr (lit ''./other'')"
  let ?o = "PyStr (lit ''LayerA'')"
  have i: "LayerVersion_init (PyStr (lit ''LayerA'')) (PyStr (lit ''./layer'')) = Inr ?lv"
    by (simp add: init_template lit_def)
  have ne: "\<not> py_eq ?c (PyStr (lit ''./layer''))"
    by (simp add: lit_def)
  have s: "set_codeuri ?lv ?c =
      \<lparr>lv_arn = lit ''LayerA'', lv_codeuri = PyStr (lit ''./other''),
       is_defined_within_template = True, lv_name = lit ''LayerA'', lv_version = None\<rparr>"
    by (simp add: set_codeuri_def)
  have ab: "lv_arn ?lv \<noteq> lv_arn ?lb"
    by (simp add: lit_def)
  have t: "LayerVersion_eq ?lv (LayerVersionObj ?lv)
       \<and> (\<not> py_eq ?c (PyStr (lit ''./layer'')) \<longrightarrow>
            \<not> LayerVersion_eq ?lv (LayerVersionObj (set_codeuri ?lv ?c))
          \<and> \<not> LayerVersion_eq (set_codeuri ?lv ?c) (LayerVersionObj ?lv))
       \<and> \<not> LayerVersion_eq ?lv (OtherObj ?o)
       \<and> (LayerVersion_eq ?lv (LayerVersionObj ?lb) \<longleftrightarrow>
            lv_arn ?lv = lv_arn ?lb \<and> py_eq (lv_codeuri ?lv) (lv_codeuri ?lb)
            \<and> is_defined_within_template ?lv = is_defined_within_template ?lb
            \<and> lv_name ?lv = lv_name ?lb \<and> lv_version ?lv = lv_version ?lb)"
    using i i by (rule layer_version_equality)
  from t have t1: "LayerVersion_eq ?lv (LayerVersionObj ?lv)"
    by (rule conjunct1)
  from t have "\<not> py_eq ?c (PyStr (lit ''./layer'')) \<longrightarrow>
            \<not> LayerVersion_eq ?lv (LayerVersionObj (set_codeuri ?lv ?c))
          \<and> \<not> LayerVersion_eq (set_codeuri ?lv ?c) (LayerVersionObj ?lv)"
    by (rule conjunct2 [THEN conjunct1])
  then have "\<not> LayerVersion_eq ?lv (LayerVersionObj (set_codeuri ?lv ?c))"
    using ne by (rule mp [THEN conjunct1])
  then have t2: "\<not> LayerVersion_eq ?lv (LayerVersionObj
      \<lparr>lv_arn = lit ''LayerA'', lv_codeuri = PyStr (lit ''./other''),
       is_defined_within_template = True, lv_name = lit ''LayerA'', lv_version = None\<rparr>)"
    unfolding s .
  from t have t3: "\<not> LayerVersion_eq ?lv (OtherObj ?o)"
    by (rule conjunct2 [THEN conjunct2, THEN conjunct1])
  from t have "LayerVersion_eq ?lv (LayerVersionObj ?lb) \<longleftrightarrow>
            lv_arn ?lv = lv_arn ?lb \<and> py_eq (lv_codeuri ?lv) (lv_codeuri ?lb)
            \<and> is_defined_within_template ?lv = is_defined_within_template ?lb
            \<and> lv_name ?lv = lv_name ?lb \<and> lv_version ?lv = lv_version ?lb"
    by (rule conjunct2 [THEN conjunct2, THEN conjunct2])
  with ab have t4: "\<not> LayerVersion_eq ?lv (LayerVersionObj ?lb)"
    by blast
  from t1 t2 t3 t4 show ?thesis by (intro conjI)
qed

text \<open>
  C8. \<open>Api.__hash__\<close> calls \<open>hash\<close> on \<open>binary_media_types_set\<close>, a \<open>set\<close>, after
  \<open>routes\<close> (a list unless the caller passes something else) and \<open>cors\<close>: whatever the
  attributes hold, the call raises \<open>TypeError\<close> and no hash value comes of it.
\<close>

theorem Api_hash_raises: "Api_hash H T a = Inl TypeError"
proof (cases "py_hash H (routes a)")
  case (Inl e)
  then show ?thesis
    using py_hash_error [OF Inl] by (simp add: Api_hash_def)
next
  case r: (Inr h1)
  show ?thesis
  proof (cases "hash_cors H T (cors a)")
    case (Inl e)
    then show ?thesis
      using r hash_cors_error [OF Inl] by (simp add: Api_hash_def)
  next
    case (Inr h2)
    then show ?thesis
      using r by (simp add: Api_hash_def hash_set_def)
  qed
qed

theorem Api_hash_raises_witness:
  "Api_hash (\<lambda>v. 1) (\<lambda>hs. 1) (Api_init PyNone) = Inl TypeError
   \<and> routes (Api_init PyNone) = PyList []
   \<and> py_hash (\<lambda>v. 1) (routes (Api_init PyNone)) = Inl TypeError
   \<and> Api_hash (\<lambda>v. 1) (\<lambda>hs. 1) (Api_init (PyStr (lit ''routes''))) = Inl TypeError
   \<and> py_hash (\<lambda>v. 1) (routes (Api_init (PyStr (lit ''routes'')))) = Inr 1"
  using Api_hash_raises [of "\<lambda>v. 1" "\<lambda>hs. 1" "Api_init PyNone"]
    Api_hash_raises [of "\<lambda>v. 1" "\<lambda>hs. 1" "Api_init (PyStr (lit ''routes''))"]
  by (simp add: Api_init_def)

text \<open>
  C9. \<open>layer_arn\<close> of a \<open>LayerVersion\<close> whose \<open>arn\<close> has no colon raises \<open>ValueError\<close>
  from the unpacking; the constructor builds such objects: every colon-free logical id
  with a truthy \<open>codeuri\<close>.
\<close>

theorem layer_arn_no_colon:
  shows "(colon \<notin> set (lv_arn lv) \<longrightarrow> layer_arn lv = Inl ValueError)
       \<and> (colon \<notin> set arn \<and> py_bool codeuri \<longrightarrow>
            (\<exists>lv'. LayerVersion_init (PyStr arn) codeuri = Inr lv' \<and> layer_arn lv' = Inl ValueError))"
  by (simp add: layer_arn_def rsplit_absent init_template)

theorem layer_arn_no_colon_witness:
  "\<exists>lv. LayerVersion_init (PyStr (lit ''MyLayer'')) (PyStr (lit ''./layer'')) = Inr lv
     \<and> colon \<notin> set (lv_arn lv) \<and> layer_arn lv = Inl ValueError"
  using layer_arn_no_colon [of "\<lparr>lv_arn = lit ''MyLayer'', lv_codeuri = PyStr (lit ''./layer''),
      is_defined_within_template = True, lv_name = lit ''MyLayer'', lv_version = None\<rparr>"
      "lit ''MyLayer''" "PyStr (lit ''./layer'')"]
  by (simp add: init_template lit_def)

text \<open>
  C10. A \<open>Cors\<close> tuple with every field \<open>None\<close> is not falsy: the dictionary of four
  \<open>None\<close> values is built and the filter leaves nothing of it, the result of the guard
  for \<open>None\<close>.
\<close>

theorem cors_all_absent:
  "cors_to_headers (Some Cors_new) = []
   \<and> cors_to_headers (Some Cors_new) = cors_to_headers None
   \<and> cors_to_headers (Some Cors_new) =
       filter (\<lambda>(h_key, h_value). h_value \<noteq> PyNone)
         [(''Access-Control-Allow-Origin'', PyNone), (''Access-Control-Allow-Methods'', PyNone),
          (''Access-Control-Allow-Headers'', PyNone), (''Access-Control-Max-Age'', PyNone)]"
  by (simp add: cors_to_headers_def Cors_new_def)

end
